theory Spec2Isabelle
  imports Main
begin

section \<open>Python values, tensors and exceptions\<close>

text \<open>
  The notebooks are Python scripts over an external tensor library. A tensor is kept as its
  shape (\<open>torch.Size\<close>) and its elements by flat index; the element type is a parameter,
  no property below depends on floating-point arithmetic.
\<close>

record 'a tensor =
  shape :: "int list"
  elems :: "nat \<Rightarrow> 'a"

text \<open>
  The Python objects that reach the checkpoint code: integers, lists, dictionaries with
  string keys (in insertion order; an \<open>OrderedDict\<close> is one of them) and tensors.
\<close>

datatype 'a pyval =
    PInt int
  | PList "'a pyval list"
  | PDict "(string \<times> 'a pyval) list"
  | PTensor "'a tensor"

text \<open>
  One line of the message of the \<open>RuntimeError\<close> that \<open>load_state_dict\<close> raises,
  as recorded in the output of cell 10 of the notebook on saving and loading:
  "size mismatch for K: copying a param with shape S from checkpoint, the shape in current
  model is S'".
\<close>

datatype load_error =
    MissingKey string
  | UnexpectedKey string
  | SizeMismatch string "int list" "int list"

datatype runtime_msg =
    NegativeDimension
  | LoadingStateDict "load_error list"

datatype error =
    FileNotFoundError string
  | UnpicklingError
  | KeyError string
  | TypeError
  | IndexError
  | RuntimeError runtime_msg
  | ZeroDivisionError

text \<open>
  \<open>obj[key]\<close> with a string key: a dictionary without the key raises \<open>KeyError\<close>;
  an integer or a list cannot be subscripted by a string (\<open>TypeError\<close>; the class of
  the exception a tensor raises there is not distinguished).
\<close>

fun getitem :: "'a pyval \<Rightarrow> string \<Rightarrow> error + 'a pyval" where
  "getitem (PDict kvs) k = (case map_of kvs k of None \<Rightarrow> Inl (KeyError k) | Some v \<Rightarrow> Inr v)"
| "getitem (PInt _) k = Inl TypeError"
| "getitem (PList _) k = Inl TypeError"
| "getitem (PTensor _) k = Inl TypeError"

section \<open>The load helper (cell 12 of the notebook on saving and loading)\<close>

text \<open>
  \<^verbatim>\<open>
  def load_checkpoint(filepath):
      checkpoint = torch.load(filepath)
      model = fc_model.Network(checkpoint["input_size"], checkpoint["output_size"],
                               checkpoint["hidden_layers"])
      model.load_state_dict(checkpoint["state_dict"])
      return model
  \<close>
  The three library calls are parameters of the model: \<open>tload\<close> for \<open>torch.load\<close>,
  \<open>network\<close> for the constructor \<open>fc_model.Network\<close> and \<open>lsd\<close> for
  \<open>load_state_dict\<close>, which updates the model in place (here: returns the updated model).
  Each may raise. Python evaluates the arguments of a call from left to right, before the
  call. The function returns the library calls it has made, in order, next to its result.
\<close>

datatype call = Call_torch_load string | Call_Network | Call_load_state_dict

definition load_checkpoint_steps ::
  "(string \<Rightarrow> error + 'a pyval) \<Rightarrow> ('a pyval \<Rightarrow> 'a pyval \<Rightarrow> 'a pyval \<Rightarrow> error + 'm) \<Rightarrow>
   ('m \<Rightarrow> 'a pyval \<Rightarrow> error + 'm) \<Rightarrow> string \<Rightarrow> call list \<times> (error + 'm)" where
  "load_checkpoint_steps tload network lsd filepath =
     (case tload filepath of
        Inl e \<Rightarrow> ([Call_torch_load filepath], Inl e)
      | Inr checkpoint \<Rightarrow>
     (case getitem checkpoint ''input_size'' of
        Inl e \<Rightarrow> ([Call_torch_load filepath], Inl e)
      | Inr a \<Rightarrow>
     (case getitem checkpoint ''output_size'' of
        Inl e \<Rightarrow> ([Call_torch_load filepath], Inl e)
      | Inr b \<Rightarrow>
     (case getitem checkpoint ''hidden_layers'' of
        Inl e \<Rightarrow> ([Call_torch_load filepath], Inl e)
      | Inr h \<Rightarrow>
     (case network a b h of
        Inl e \<Rightarrow> ([Call_torch_load filepath, Call_Network], Inl e)
      | Inr model \<Rightarrow>
     (case getitem checkpoint ''state_dict'' of
        Inl e \<Rightarrow> ([Call_torch_load filepath, Call_Network], Inl e)
      | Inr sd \<Rightarrow>
     (case lsd model sd of
        Inl e \<Rightarrow> ([Call_torch_load filepath, Call_Network, Call_load_state_dict], Inl e)
      | Inr model' \<Rightarrow>
          ([Call_torch_load filepath, Call_Network, Call_load_state_dict], Inr model'))))))))"

definition load_checkpoint_with ::
  "(string \<Rightarrow> error + 'a pyval) \<Rightarrow> ('a pyval \<Rightarrow> 'a pyval \<Rightarrow> 'a pyval \<Rightarrow> error + 'm) \<Rightarrow>
   ('m \<Rightarrow> 'a pyval \<Rightarrow> error + 'm) \<Rightarrow> string \<Rightarrow> error + 'm" where
  "load_checkpoint_with tload network lsd filepath =
     snd (load_checkpoint_steps tload network lsd filepath)"

section \<open>The tensor library and the network class, as the notebooks use them\<close>

subsection \<open>Files\<close>

text \<open>
  The file system maps the path of a file to what is stored there: an object pickled by
  \<open>torch.save\<close>, a file of a downloaded dataset, or the cached bytecode of an imported
  module. Directories are not entries: a directory exists when a file below it does.
\<close>

datatype 'a stored = Pickle "'a pyval" | DatasetFiles | Bytecode

type_synonym 'a filesystem = "string \<rightharpoonup> 'a stored"

text \<open>
  Modelled from the spec: \<open>torch.save\<close> and \<open>torch.load\<close> belong to the external
  framework and are not among the sources. "The checkpoint file written by the save/load
  helper [is] a single serialized object": saving stores the object at the path, loading
  returns the object stored there and raises when there is none.
\<close>

definition torch_save :: "'a pyval \<Rightarrow> string \<Rightarrow> 'a filesystem \<Rightarrow> 'a filesystem" where
  "torch_save obj f fs = fs(f \<mapsto> Pickle obj)"

definition torch_load :: "'a filesystem \<Rightarrow> string \<Rightarrow> error + 'a pyval" where
  "torch_load fs f =
     (case fs f of
        None \<Rightarrow> Inl (FileNotFoundError f)
      | Some (Pickle obj) \<Rightarrow> Inr obj
      | Some DatasetFiles \<Rightarrow> Inl UnpicklingError
      | Some Bytecode \<Rightarrow> Inl UnpicklingError)"

subsection \<open>Linear layers and the network\<close>

text \<open>
  Modelled from the spec: the module \<open>fc_model\<close> (the class \<open>fc_model.Network\<close>) is not
  among the sources. The spec speaks of "input/output dimensionality, a list of hidden-layer
  widths, and a mapping from parameter names to tensors"; the structure is the one the
  notebook prints in cell 6:
  \<^verbatim>\<open>
  Network(
    (hidden_layers): ModuleList(
      (0): Linear(in_features=784, out_features=512, bias=True)
      (1): Linear(in_features=512, out_features=256, bias=True)
      (2): Linear(in_features=256, out_features=128, bias=True)
    )
    (output): Linear(in_features=128, out_features=10, bias=True)
    (dropout): Dropout(p=0.5, inplace=False)
  )
  \<close>
  The dropout module has no parameter and is left out; the attribute \<open>output\<close> is the
  field \<open>output_layer\<close>. The weight of
  \<open>Linear(in_features=i, out_features=j)\<close> has shape \<open>[j, i]\<close> and its bias shape
  \<open>[j]\<close> (cell 10 records \<open>torch.Size([512, 784])\<close> and \<open>torch.Size([512])\<close> for
  layer 0).
\<close>

record 'a Linear =
  in_features :: int
  out_features :: int
  weight :: "'a tensor"
  bias :: "'a tensor"

record 'a Network =
  hidden_layers :: "'a Linear list"
  output_layer :: "'a Linear"

text \<open>
  The constructor initialises the parameters at random. The random draws are a parameter:
  \<open>rng k\<close> gives the elements of the weight and of the bias of the \<open>k\<close>-th linear layer
  constructed.
\<close>

type_synonym 'a rng = "nat \<Rightarrow> (nat \<Rightarrow> 'a) \<times> (nat \<Rightarrow> 'a)"

definition nn_Linear :: "(nat \<Rightarrow> 'a) \<times> (nat \<Rightarrow> 'a) \<Rightarrow> int \<Rightarrow> int \<Rightarrow> 'a Linear" where
  "nn_Linear draw n_in n_out =
     \<lparr>in_features = n_in, out_features = n_out,
      weight = \<lparr>shape = [n_out, n_in], elems = fst draw\<rparr>,
      bias = \<lparr>shape = [n_out], elems = snd draw\<rparr>\<rparr>"

fun build_layers :: "'a rng \<Rightarrow> nat \<Rightarrow> (int \<times> int) list \<Rightarrow> 'a Linear list" where
  "build_layers rng k [] = []"
| "build_layers rng k ((n_in, n_out) # ds) =
     nn_Linear (rng k) n_in n_out # build_layers rng (Suc k) ds"

text \<open>
  Modelled from the spec: \<open>fc_model.Network(input_size, output_size, hidden_layers)\<close>.
  The first hidden layer maps the input to the first width, each further one a width to the
  next, the output layer the last width to the output size; so an empty list of widths has
  no network (\<open>IndexError\<close>), and the library refuses a negative dimension.
\<close>

definition fc_model_Network :: "'a rng \<Rightarrow> int \<Rightarrow> int \<Rightarrow> int list \<Rightarrow> error + 'a Network" where
  "fc_model_Network rng input_size output_size hs =
     (if hs = [] then Inl IndexError
      else if list_ex (\<lambda>d. d < 0) (input_size # output_size # hs)
      then Inl (RuntimeError NegativeDimension)
      else Inr \<lparr>hidden_layers = build_layers rng 0 ((input_size, hd hs) # zip (butlast hs) (tl hs)),
                output_layer = nn_Linear (rng (length hs)) (last hs) output_size\<rparr>)"

fun as_ints :: "'a pyval list \<Rightarrow> int list option" where
  "as_ints [] = Some []"
| "as_ints (PInt i # vs) = map_option ((#) i) (as_ints vs)"
| "as_ints (_ # vs) = None"

text \<open>The constructor called on Python objects: sizes are integers, the widths a list of integers.\<close>

fun Network_call :: "'a rng \<Rightarrow> 'a pyval \<Rightarrow> 'a pyval \<Rightarrow> 'a pyval \<Rightarrow> error + 'a Network" where
  "Network_call rng (PInt a) (PInt b) (PList h) =
     (case as_ints h of None \<Rightarrow> Inl TypeError | Some hs \<Rightarrow> fc_model_Network rng a b hs)"
| "Network_call rng _ _ _ = Inl TypeError"

subsection \<open>Parameter names and the state dict\<close>

text \<open>Python's \<open>str\<close> of a non-negative index, as the names of the layers of a module list.\<close>

definition digit_char :: "nat \<Rightarrow> char" where
  "digit_char d = char_of (48 + d)"

function str_nat :: "nat \<Rightarrow> string" where
  "str_nat n = (if n < 10 then [digit_char n] else str_nat (n div 10) @ [digit_char (n mod 10)])"
  by pat_completeness auto
termination
  by (relation "measure id") auto

definition linear_parameters :: "string \<Rightarrow> 'a Linear \<Rightarrow> (string \<times> 'a tensor) list" where
  "linear_parameters prefix l = [(prefix @ ''.weight'', weight l), (prefix @ ''.bias'', bias l)]"

definition layer_name :: "nat \<Rightarrow> string" where
  "layer_name k = ''hidden_layers.'' @ str_nat k"

fun layers_parameters :: "nat \<Rightarrow> 'a Linear list \<Rightarrow> (string \<times> 'a tensor) list" where
  "layers_parameters k [] = []"
| "layers_parameters k (l # ls) = linear_parameters (layer_name k) l @ layers_parameters (Suc k) ls"

text \<open>
  Modelled from the spec: "a mapping from parameter names to tensors", with the names the
  notebook prints in cell 6: \<open>hidden_layers.0.weight\<close>, \<open>hidden_layers.0.bias\<close>, ...,
  \<open>output.weight\<close>, \<open>output.bias\<close>.
\<close>

definition named_parameters :: "'a Network \<Rightarrow> (string \<times> 'a tensor) list" where
  "named_parameters m =
     layers_parameters 0 (hidden_layers m) @ linear_parameters ''output'' (output_layer m)"

definition state_dict :: "'a Network \<Rightarrow> 'a pyval" where
  "state_dict m = PDict (map (\<lambda>(k, t). (k, PTensor t)) (named_parameters m))"

subsection \<open>Loading a state dict\<close>

fun tensor_items :: "(string \<times> 'a pyval) list \<Rightarrow> (string \<times> 'a tensor) list option" where
  "tensor_items [] = Some []"
| "tensor_items ((k, PTensor t) # kvs) = map_option ((#) (k, t)) (tensor_items kvs)"
| "tensor_items (_ # kvs) = None"

definition size_mismatches ::
  "(string \<rightharpoonup> 'a tensor) \<Rightarrow> (string \<times> 'a tensor) list \<Rightarrow> load_error list" where
  "size_mismatches sd own =
     concat (map (\<lambda>(k, p). case sd k of
                              None \<Rightarrow> []
                            | Some t \<Rightarrow> if shape t = shape p then []
                                        else [SizeMismatch k (shape t) (shape p)]) own)"

definition copy_param :: "(string \<rightharpoonup> 'a tensor) \<Rightarrow> string \<Rightarrow> 'a tensor \<Rightarrow> 'a tensor" where
  "copy_param sd k p =
     (case sd k of None \<Rightarrow> p | Some t \<Rightarrow> if shape t = shape p then t else p)"

definition load_linear :: "(string \<rightharpoonup> 'a tensor) \<Rightarrow> string \<Rightarrow> 'a Linear \<Rightarrow> 'a Linear" where
  "load_linear sd prefix l =
     l\<lparr>weight := copy_param sd (prefix @ ''.weight'') (weight l),
       bias := copy_param sd (prefix @ ''.bias'') (bias l)\<rparr>"

fun load_layers :: "(string \<rightharpoonup> 'a tensor) \<Rightarrow> nat \<Rightarrow> 'a Linear list \<Rightarrow> 'a Linear list" where
  "load_layers sd k [] = []"
| "load_layers sd k (l # ls) = load_linear sd (layer_name k) l # load_layers sd (Suc k) ls"

text \<open>
  The problems \<open>load_state_dict\<close> collects for a model with the parameters \<open>own\<close> and
  a state dict with the entries \<open>items\<close>: the parameters the state dict lacks, the keys
  it has in excess, and the parameters whose shape differs.
\<close>

definition load_errors ::
  "(string \<times> 'a tensor) list \<Rightarrow> (string \<times> 'a tensor) list \<Rightarrow> load_error list" where
  "load_errors items own =
     map MissingKey (filter (\<lambda>k. map_of items k = None) (map fst own)) @
     map UnexpectedKey (filter (\<lambda>k. k \<notin> set (map fst own)) (map fst items)) @
     size_mismatches (map_of items) own"

text \<open>
  Modelled from the spec: \<open>load_state_dict\<close> belongs to the external framework. The spec:
  "keys present and shapes consistent with the reconstructed model -- enforced entirely by
  the external framework", "a shape-mismatch error when loading a checkpoint into an
  incompatibly-configured model". Cell 9 records \<open><All keys matched successfully>\<close>, cell
  10 the \<open>RuntimeError\<close> listing one size mismatch per parameter whose shape differs.
  The method works in place: a parameter found in the state dict with the right shape is
  overwritten, the problems are collected, and the error is raised at the end if there is
  any. The first component is the model afterwards, the second the exception raised.
\<close>

definition load_state_dict_inplace :: "'a Network \<Rightarrow> 'a pyval \<Rightarrow> 'a Network \<times> error option" where
  "load_state_dict_inplace m v =
     (case v of
        PDict kvs \<Rightarrow>
          (case tensor_items kvs of
             None \<Rightarrow> (m, Some TypeError)
           | Some items \<Rightarrow>
               let errs = load_errors items (named_parameters m);
                   m' = \<lparr>hidden_layers = load_layers (map_of items) 0 (hidden_layers m),
                         output_layer = load_linear (map_of items) ''output'' (output_layer m)\<rparr>
               in (m', if errs = [] then None else Some (RuntimeError (LoadingStateDict errs))))
      | _ \<Rightarrow> (m, Some TypeError))"

definition load_state_dict :: "'a Network \<Rightarrow> 'a pyval \<Rightarrow> error + 'a Network" where
  "load_state_dict m v =
     (case load_state_dict_inplace m v of (m', None) \<Rightarrow> Inr m' | (m', Some e) \<Rightarrow> Inl e)"

section \<open>The checkpoint (cell 11) and the load helper on the library\<close>

text \<open>
  \<^verbatim>\<open>
  checkpoint = {
      "input_size": 784,
      "output_size": 10,
      "hidden_layers": [each.out_features for each in model.hidden_layers],
      "state_dict": model.state_dict(),
  }
  torch.save(checkpoint, "checkpoint.pth")
  \<close>
\<close>

definition checkpoint :: "'a Network \<Rightarrow> 'a pyval" where
  "checkpoint model =
     PDict [(''input_size'', PInt 784),
            (''output_size'', PInt 10),
            (''hidden_layers'', PList (map (\<lambda>each. PInt (out_features each)) (hidden_layers model))),
            (''state_dict'', state_dict model)]"

text \<open>
  The cell hands the serializer one object, the dictionary, and the path
  \<open>checkpoint.pth\<close>. First with the serializer as a parameter, then with \<open>torch.save\<close>.
\<close>

definition save_checkpoint_with ::
  "('a pyval \<Rightarrow> string \<Rightarrow> 'fs \<Rightarrow> 'fs) \<Rightarrow> 'a Network \<Rightarrow> 'fs \<Rightarrow> 'fs" where
  "save_checkpoint_with tsave model fs = tsave (checkpoint model) ''checkpoint.pth'' fs"

definition save_checkpoint :: "'a Network \<Rightarrow> 'a filesystem \<Rightarrow> 'a filesystem" where
  "save_checkpoint model fs = save_checkpoint_with torch_save model fs"

definition load_checkpoint :: "'a filesystem \<Rightarrow> 'a rng \<Rightarrow> string \<Rightarrow> error + 'a Network" where
  "load_checkpoint fs rng filepath =
     load_checkpoint_with (torch_load fs) (Network_call rng) load_state_dict filepath"

definition load_checkpoint_calls :: "'a filesystem \<Rightarrow> 'a rng \<Rightarrow> string \<Rightarrow> call list" where
  "load_checkpoint_calls fs rng filepath =
     fst (load_checkpoint_steps (torch_load fs) (Network_call rng) load_state_dict filepath)"

section \<open>The training loop (notebook on training neural networks)\<close>

text \<open>
  \<^verbatim>\<open>
  epochs = 5
  for _ in range(epochs):
      running_loss = 0
      for images, labels in trainloader:
          images = images.view(images.shape[0], -1)
          output = model(images)
          loss = criterion(output, labels)
          loss.backward()
          running_loss += loss.item()
          optimizer.step()
          optimizer.zero_grad()
      else:
          print(f"Training loss: {running_loss / len(trainloader)}")
  \<close>
  Python's \<open>for ... else\<close>: the body is run for each element in turn; a \<open>break\<close> in the
  body leaves the loop and skips the \<open>else\<close> clause, which runs when the elements are
  exhausted.
\<close>

datatype 's flow = Continue 's | Break 's

fun for_else :: "('x \<Rightarrow> 's \<Rightarrow> 's flow) \<Rightarrow> ('s \<Rightarrow> error + 's) \<Rightarrow> 'x list \<Rightarrow> 's \<Rightarrow> error + 's" where
  "for_else body orelse [] s = orelse s"
| "for_else body orelse (x # xs) s =
     (case body x s of Break s' \<Rightarrow> Inr s' | Continue s' \<Rightarrow> for_else body orelse xs s')"

text \<open>
  The calls into the library are parameters: \<open>loss_item\<close> is the loss of the model on a
  batch (\<open>model(images)\<close>, \<open>criterion(output, labels)\<close>, \<open>loss.item()\<close>),
  \<open>optimizer_step\<close> the model after \<open>loss.backward()\<close>, \<open>optimizer.step()\<close> and
  \<open>optimizer.zero_grad()\<close>. Losses are Python floats: their type, their addition, their
  division by the length of the loader and the float of the integer \<open>0\<close> are parameters
  too.
\<close>

record ('m, 'b, 'f) library =
  loss_item :: "'m \<Rightarrow> 'b \<Rightarrow> 'f"
  optimizer_step :: "'m \<Rightarrow> 'b \<Rightarrow> 'm"
  float_add :: "'f \<Rightarrow> 'f \<Rightarrow> 'f"
  float_div :: "'f \<Rightarrow> nat \<Rightarrow> 'f"
  float_of_zero :: 'f

text \<open>
  The loader is built with \<open>shuffle=True\<close>: each pass over it yields its own sequence of
  batches, \<open>batches trainloader k\<close> in epoch \<open>k\<close>; \<open>len\<close> is \<open>len(trainloader)\<close>.
\<close>

record 'b dataloader =
  batches :: "nat \<Rightarrow> 'b list"
  len :: nat

text \<open>The variables of the cell: \<open>net\<close> is the variable \<open>model\<close> (with its optimizer),
  then \<open>running_loss\<close>, and the
  values printed so far, one for each executed \<open>print\<close>.\<close>

record ('m, 'f) training =
  net :: 'm
  running_loss :: 'f
  printed :: "'f list"

definition training_pass ::
  "('m, 'b, 'f) library \<Rightarrow> 'b \<Rightarrow> ('m, 'f) training \<Rightarrow> ('m, 'f) training flow" where
  "training_pass lib batch s =
     Continue (s\<lparr>running_loss := float_add lib (running_loss s) (loss_item lib (net s) batch),
                 net := optimizer_step lib (net s) batch\<rparr>)"

text \<open>The \<open>else\<close> clause: dividing by a length of zero raises \<open>ZeroDivisionError\<close>.\<close>

definition print_training_loss ::
  "('m, 'b, 'f) library \<Rightarrow> nat \<Rightarrow> ('m, 'f) training \<Rightarrow> error + ('m, 'f) training" where
  "print_training_loss lib n s =
     (if n = 0 then Inl ZeroDivisionError
      else Inr (s\<lparr>printed := printed s @ [float_div lib (running_loss s) n]\<rparr>))"

definition epoch ::
  "('m, 'b, 'f) library \<Rightarrow> 'b dataloader \<Rightarrow> nat \<Rightarrow> ('m, 'f) training \<Rightarrow>
   error + ('m, 'f) training" where
  "epoch lib trainloader k s =
     for_else (training_pass lib) (print_training_loss lib (len trainloader))
       (batches trainloader k) (s\<lparr>running_loss := float_of_zero lib\<rparr>)"

fun for_range :: "(nat \<Rightarrow> 's \<Rightarrow> error + 's) \<Rightarrow> nat list \<Rightarrow> 's \<Rightarrow> error + 's" where
  "for_range body [] s = Inr s"
| "for_range body (k # ks) s =
     (case body k s of Inl e \<Rightarrow> Inl e | Inr s' \<Rightarrow> for_range body ks s')"

definition epochs :: nat where
  "epochs = 5"

definition train ::
  "('m, 'b, 'f) library \<Rightarrow> 'b dataloader \<Rightarrow> ('m, 'f) training \<Rightarrow> error + ('m, 'f) training" where
  "train lib trainloader s = for_range (epoch lib trainloader) [0..<epochs] s"

text \<open>
  What one pass over the batches computes: the losses in order, each on the model as the
  steps before have left it, and the model at the end.
\<close>

fun pass_losses :: "('m, 'b, 'f) library \<Rightarrow> 'm \<Rightarrow> 'b list \<Rightarrow> 'f list" where
  "pass_losses lib m [] = []"
| "pass_losses lib m (b # bs) = loss_item lib m b # pass_losses lib (optimizer_step lib m b) bs"

definition model_after :: "('m, 'b, 'f) library \<Rightarrow> 'm \<Rightarrow> 'b list \<Rightarrow> 'm" where
  "model_after lib m bs = foldl (optimizer_step lib) m bs"

text \<open>A library on integers and a loader of two batches, to run the loop on.\<close>

definition int_library :: "(int, int, int) library" where
  "int_library = \<lparr>loss_item = (\<lambda>m b. b - m), optimizer_step = (\<lambda>m b. m + 1),
     float_add = (+), float_div = (\<lambda>x n. x div int n), float_of_zero = 0\<rparr>"

definition two_batches :: "int dataloader" where
  "two_batches = \<lparr>batches = (\<lambda>k. [10, 20]), len = 2\<rparr>"

section \<open>The notebooks and the file system\<close>

text \<open>
  The notebooks change the file system through library calls only. What a library call does
  to the files is not in the sources, so it is a parameter: \<open>effect call fs\<close> is the file
  system after the call. The calls are an import statement (by module), a dataset
  constructor called with \<open>download=True\<close> (by class and root), and the other library
  calls of a cell (by the number of the cell). The one call whose file effect is modelled is
  \<open>torch.save\<close>.
\<close>

datatype libcall = Import string | Dataset string string | Library nat

text \<open>
  The notebook on training neural networks: the imports and the dataset of cell 1,
  \<^verbatim>\<open>
  import torch
  from torch import nn
  from torchvision import datasets, transforms
  trainset = datasets.MNIST("~/.pytorch/MNIST_data/", download=True, train=True, ...)
  trainloader = torch.utils.data.DataLoader(trainset, batch_size=64, shuffle=True)
  \<close>
  the library calls of cells 2 to 16 (with \<open>from torch import optim\<close> in cell 12; there
  is no cell 15), and \<open>import helper\<close> and \<open>helper.view_classify\<close> in cell 17. It never
  calls \<open>torch.save\<close>.
\<close>

definition training_notebook_calls :: "libcall list" where
  "training_notebook_calls =
     [Import ''torch'', Import ''torch.nn'', Import ''torchvision'',
      Dataset ''MNIST'' ''~/.pytorch/MNIST_data/'', Library 1,
      Library 2, Library 3, Library 4, Library 5, Library 6, Library 7, Library 8, Library 9,
      Library 10, Library 11, Import ''torch.optim'', Library 12, Library 13, Library 14,
      Library 16, Import ''helper'', Library 17]"

definition training_notebook_files ::
  "(libcall \<Rightarrow> 'a filesystem \<Rightarrow> 'a filesystem) \<Rightarrow> 'a filesystem \<Rightarrow> 'a filesystem" where
  "training_notebook_files effect fs = fold effect training_notebook_calls fs"

text \<open>
  The notebook on saving and loading, cell by cell, as far as files and the variable
  \<open>model\<close> go. The result is the file system at the end and the outcome of the last cell.
  \<^verbatim>\<open>
  [1]  %matplotlib inline
       import fc_model; import helper; import torch
       from torch import nn, optim; from torchvision import datasets, transforms
  [2]  trainset = datasets.FashionMNIST("~/.pytorch/F_MNIST_data/", download=True, train=True, ...)
       testset = datasets.FashionMNIST("~/.pytorch/F_MNIST_data/", download=True, train=False, ...)
  [3]  helper.imshow(image[0, :])
  [4]  model = fc_model.Network(784, 10, [512, 256, 128])
  [5]  fc_model.train(model, trainloader, testloader, criterion, optimizer, epochs=2)
  [6]  print(model); print(model.state_dict().keys())
  [7]  torch.save(model.state_dict(), "checkpoint.pth")
  [8]  state_dict = torch.load("checkpoint.pth")
  [9]  model.load_state_dict(state_dict)
  [10] model = fc_model.Network(784, 10, [400, 200, 100])
       # This will throw an error because the tensor sizes are wrong!
       model.load_state_dict(state_dict)
  [11] checkpoint = {...}; torch.save(checkpoint, "checkpoint.pth")
  [13] model = load_checkpoint("checkpoint.pth")
  \<close>
  In each cell the file effect of its library calls comes first. Training is a parameter
  (\<open>fit\<close>), and so are the random draws of the three constructor calls. The error of
  cell 10 is the one the notebook records; the run goes on with the model as
  \<open>load_state_dict\<close> has left it.
\<close>

definition saving_notebook ::
  "(libcall \<Rightarrow> 'a filesystem \<Rightarrow> 'a filesystem) \<Rightarrow> 'a rng \<Rightarrow> 'a rng \<Rightarrow> 'a rng \<Rightarrow>
   ('a Network \<Rightarrow> 'a Network) \<Rightarrow> 'a filesystem \<Rightarrow> 'a filesystem \<times> (error + 'a Network)" where
  "saving_notebook effect rng4 rng10 rng13 fit fs0 =
     (let fs1 = fold effect [Library 1, Import ''fc_model'', Import ''helper'', Import ''torch'',
                             Import ''torch.nn'', Import ''torch.optim'', Import ''torchvision''] fs0;
          fs2 = fold effect [Dataset ''FashionMNIST'' ''~/.pytorch/F_MNIST_data/'', Library 2,
                             Dataset ''FashionMNIST'' ''~/.pytorch/F_MNIST_data/'', Library 2] fs1;
          fs4 = fold effect [Library 3, Library 4] fs2
      in (case fc_model_Network rng4 784 10 [512, 256, 128] of
            Inl e \<Rightarrow> (fs4, Inl e)
          | Inr model4 \<Rightarrow>
     (let model5 = fit model4;
          fs6 = fold effect [Library 5, Library 6] fs4;
          fs7 = torch_save (state_dict model5) ''checkpoint.pth'' (effect (Library 7) fs6);
          fs8 = effect (Library 8) fs7
      in (case torch_load fs8 ''checkpoint.pth'' of
            Inl e \<Rightarrow> (fs8, Inl e)
          | Inr sd \<Rightarrow>
         (case load_state_dict model5 sd of
            Inl e \<Rightarrow> (effect (Library 9) fs8, Inl e)
          | Inr model9 \<Rightarrow>
     (let fs10 = fold effect [Library 9, Library 10] fs8
      in (case fc_model_Network rng10 784 10 [400, 200, 100] of
            Inl e \<Rightarrow> (fs10, Inl e)
          | Inr model10 \<Rightarrow>
     (let model11 = fst (load_state_dict_inplace model10 sd);
          fs11 = save_checkpoint model11 (effect (Library 11) fs10);
          fs13 = effect (Library 13) fs11
      in (fs13, load_checkpoint fs13 rng13 ''checkpoint.pth'')))))))))"

text \<open>
  What the library calls do on a first run with the network reachable, as far as it is
  known; none of it is in the sources. Importing a local module (\<open>fc_model\<close>,
  \<open>helper\<close>) leaves its bytecode in \<open>__pycache__\<close> (the notebooks record Python
  3.13). A dataset constructor expands \<open>~\<close> in its root to the home directory and,
  unless the four data files are already there, stores them and their archives in
  \<open>root/Class/raw\<close>.
\<close>

definition expanduser :: "string \<Rightarrow> string \<Rightarrow> string" where
  "expanduser home path =
     (if path = ''~'' \<or> take 2 path = ''~/'' then home @ drop 1 path else path)"

definition path_join :: "string \<Rightarrow> string \<Rightarrow> string" where
  "path_join dir name =
     (if dir = [] \<or> last dir = CHR ''/'' then dir @ name else dir @ ''/'' @ name)"

definition mnist_files :: "string list" where
  "mnist_files =
     [''train-images-idx3-ubyte'', ''train-labels-idx1-ubyte'',
      ''t10k-images-idx3-ubyte'', ''t10k-labels-idx1-ubyte'']"

definition raw_folder :: "string \<Rightarrow> string \<Rightarrow> string \<Rightarrow> string" where
  "raw_folder home cls root = path_join (path_join (expanduser home root) cls) ''raw''"

definition store_all :: "string list \<Rightarrow> 'a stored \<Rightarrow> 'a filesystem \<Rightarrow> 'a filesystem" where
  "store_all paths content fs = fold (\<lambda>p fs'. fs'(p \<mapsto> content)) paths fs"

definition first_run :: "string \<Rightarrow> libcall \<Rightarrow> 'a filesystem \<Rightarrow> 'a filesystem" where
  "first_run home call fs =
     (case call of
        Import m \<Rightarrow>
          (if m = ''fc_model'' \<or> m = ''helper''
           then store_all [''__pycache__/'' @ m @ ''.cpython-313.pyc''] Bytecode fs
           else fs)
      | Dataset cls root \<Rightarrow>
          (let raw = raw_folder home cls root
           in if list_all (\<lambda>f. fs (path_join raw f) \<noteq> None) mnist_files then fs
              else store_all (map (path_join raw) mnist_files @
                              map (\<lambda>f. path_join raw (f @ ''.gz'')) mnist_files)
                     DatasetFiles fs)
      | Library n \<Rightarrow> fs)"

section \<open>Architectures, and inputs to run the definitions on\<close>

text \<open>
  Two layers, and two networks, have the same architecture when their sizes and the shapes
  of their parameters agree; the elements of the tensors may differ.
\<close>

definition same_linear :: "'a Linear \<Rightarrow> 'a Linear \<Rightarrow> bool" where
  "same_linear l l' =
     (in_features l = in_features l' \<and> out_features l = out_features l' \<and>
      shape (weight l) = shape (weight l') \<and> shape (bias l) = shape (bias l'))"

definition same_architecture :: "'a Network \<Rightarrow> 'a Network \<Rightarrow> bool" where
  "same_architecture m m' =
     (list_all2 same_linear (hidden_layers m) (hidden_layers m') \<and>
      same_linear (output_layer m) (output_layer m'))"

definition parameter_shapes :: "(string \<times> 'a tensor) list \<Rightarrow> (string \<times> int list) list" where
  "parameter_shapes ps = map (\<lambda>(k, p). (k, shape p)) ps"

text \<open>Every parameter is in the state dict, with the shape the model has for it.\<close>

definition covered :: "(string \<rightharpoonup> 'a tensor) \<Rightarrow> (string \<times> 'a tensor) list \<Rightarrow> bool" where
  "covered sd own =
     list_all (\<lambda>(k, p). case sd k of None \<Rightarrow> False | Some t \<Rightarrow> shape t = shape p) own"

text \<open>Two initialisations, on integers.\<close>

definition zeros :: "int rng" where
  "zeros k = (\<lambda>i. 0, \<lambda>i. 0)"

definition ones :: "int rng" where
  "ones k = (\<lambda>i. 1, \<lambda>i. 1)"

text \<open>\<open>Network(4, 10, [3])\<close> and \<open>Network(784, 10, [3])\<close>, initialised with zeros.\<close>

definition small_model :: "int Network" where
  "small_model =
     \<lparr>hidden_layers = [nn_Linear (zeros 0) 4 3], output_layer = nn_Linear (zeros 1) 3 10\<rparr>"

definition mnist_model :: "int Network" where
  "mnist_model =
     \<lparr>hidden_layers = [nn_Linear (zeros 0) 784 3], output_layer = nn_Linear (zeros 1) 3 10\<rparr>"

text \<open>A file system with one file that is neither a checkpoint nor a dataset.\<close>

definition notes_only :: "int filesystem" where
  "notes_only = [''notes.txt'' \<mapsto> Pickle (PInt 1)]"

section \<open>Kinds of loading errors, and networks to load into\<close>

fun is_size_mismatch :: "load_error \<Rightarrow> bool" where
  "is_size_mismatch (SizeMismatch k s s') = True"
| "is_size_mismatch _ = False"

fun is_key_error :: "load_error \<Rightarrow> bool" where
  "is_key_error (MissingKey k) = True"
| "is_key_error (UnexpectedKey k) = True"
| "is_key_error _ = False"

text \<open>\<open>Network(784, 10, [512, 256, 128])\<close> and \<open>Network(784, 10, [512, 256, 128, 128])\<close>,
  initialised with zeros.\<close>

definition saved_model :: "int Network" where
  "saved_model =
     \<lparr>hidden_layers = [nn_Linear (zeros 0) 784 512, nn_Linear (zeros 1) 512 256,
                        nn_Linear (zeros 2) 256 128],
      output_layer = nn_Linear (zeros 3) 128 10\<rparr>"

definition longer_model :: "int Network" where
  "longer_model =
     \<lparr>hidden_layers = [nn_Linear (zeros 0) 784 512, nn_Linear (zeros 1) 512 256,
                        nn_Linear (zeros 2) 256 128, nn_Linear (zeros 3) 128 128],
      output_layer = nn_Linear (zeros 4) 128 10\<rparr>"

section \<open>The invariants of a checkpoint\<close>

text \<open>
  "Keys present and shapes consistent with the reconstructed model." The four keys can be
  read:
\<close>

definition keys_present :: "'a pyval \<Rightarrow> bool" where
  "keys_present c =
     list_all (\<lambda>k. case getitem c k of Inl _ \<Rightarrow> False | Inr _ \<Rightarrow> True)
       [''input_size'', ''output_size'', ''hidden_layers'', ''state_dict'']"

text \<open>
  and they hold integer sizes \<open>a\<close> and \<open>b\<close>, a list of integer widths \<open>hs\<close> and a
  dictionary of tensors with the entries \<open>items\<close>:
\<close>

definition checkpoint_holds ::
  "'a pyval \<Rightarrow> int \<Rightarrow> int \<Rightarrow> int list \<Rightarrow> (string \<times> 'a tensor) list \<Rightarrow> bool" where
  "checkpoint_holds c a b hs items =
     (getitem c ''input_size'' = Inr (PInt a) \<and>
      getitem c ''output_size'' = Inr (PInt b) \<and>
      getitem c ''hidden_layers'' = Inr (PList (map PInt hs)) \<and>
      getitem c ''state_dict'' = Inr (PDict (map (\<lambda>(k, t). (k, PTensor t)) items)))"

text \<open>
  The names and shapes of the parameters of \<open>Network(a, b, hs)\<close>, written out: layer
  \<open>k\<close> from \<open>n_in\<close> to \<open>n_out\<close> features has the weight
  \<open>hidden_layers.k.weight\<close> of shape \<open>[n_out, n_in]\<close> and the bias
  \<open>hidden_layers.k.bias\<close> of shape \<open>[n_out]\<close>; the layers go from the input size to
  the first width and from each width to the next, the output layer from the last width to
  the output size.
\<close>

fun layers_shapes :: "nat \<Rightarrow> (int \<times> int) list \<Rightarrow> (string \<times> int list) list" where
  "layers_shapes k [] = []"
| "layers_shapes k ((n_in, n_out) # ds) =
     (layer_name k @ ''.weight'', [n_out, n_in]) # (layer_name k @ ''.bias'', [n_out]) #
     layers_shapes (Suc k) ds"

definition expected_shapes :: "int \<Rightarrow> int \<Rightarrow> int list \<Rightarrow> (string \<times> int list) list" where
  "expected_shapes a b hs =
     layers_shapes 0 (zip (a # butlast hs) hs) @
     [(''output.weight'', [b, last hs]), (''output.bias'', [b])]"

text \<open>The network can be reconstructed: there is a width, and no size is negative.\<close>

definition constructible :: "int \<Rightarrow> int \<Rightarrow> int list \<Rightarrow> bool" where
  "constructible a b hs = (hs \<noteq> [] \<and> list_all (\<lambda>d. 0 \<le> d) (a # b # hs))"

text \<open>
  The shapes of the tensors of the state dict are consistent with the network: every
  parameter of the table has in the state dict a tensor of its shape.
\<close>

definition shapes_consistent ::
  "(string \<times> 'a tensor) list \<Rightarrow> (string \<times> int list) list \<Rightarrow> bool" where
  "shapes_consistent items table =
     list_all (\<lambda>(k, s). case map_of items k of None \<Rightarrow> False | Some t \<Rightarrow> shape t = s) table"

text \<open>The state dict has no key that is not the name of a parameter.\<close>

definition no_other_keys ::
  "(string \<times> 'a tensor) list \<Rightarrow> (string \<times> int list) list \<Rightarrow> bool" where
  "no_other_keys items table = list_all (\<lambda>k. k \<in> set (map fst table)) (map fst items)"

text \<open>
  The checkpoint of \<open>Network(784, 10, [3])\<close> with one more entry in its state dict, a
  tensor under the key \<open>extra\<close>.
\<close>

definition extra_items :: "(string \<times> int tensor) list" where
  "extra_items = named_parameters mnist_model @ [(''extra'', \<lparr>shape = [10], elems = \<lambda>i. 0\<rparr>)]"

definition extra_checkpoint :: "int pyval" where
  "extra_checkpoint =
     PDict [(''input_size'', PInt 784),
            (''output_size'', PInt 10),
            (''hidden_layers'', PList [PInt 3]),
            (''state_dict'', PDict (map (\<lambda>(k, t). (k, PTensor t)) extra_items))]"

section \<open>Properties of the checkpoint and of the load helper\<close>

text \<open>
  C3. \<open>load_checkpoint\<close> has no error handling of its own. It raises \<open>e\<close> exactly when one
  of its steps raises \<open>e\<close> after the steps before it have returned: \<open>torch.load\<close>, the
  three dictionary accesses for the hyperparameters, the constructor, the access to the
  state dict, \<open>load_state_dict\<close>. So every error of a step reaches the caller unchanged and
  no other error is ever raised; and no library function is called twice (no retry).
\<close>

theorem load_checkpoint_propagates_errors:
  "(load_checkpoint_with tload network lsd filepath = Inl e \<longleftrightarrow>
      tload filepath = Inl e \<or>
      (\<exists>c. tload filepath = Inr c \<and> getitem c ''input_size'' = Inl e) \<or>
      (\<exists>c a. tload filepath = Inr c \<and> getitem c ''input_size'' = Inr a \<and>
         getitem c ''output_size'' = Inl e) \<or>
      (\<exists>c a b. tload filepath = Inr c \<and> getitem c ''input_size'' = Inr a \<and>
         getitem c ''output_size'' = Inr b \<and> getitem c ''hidden_layers'' = Inl e) \<or>
      (\<exists>c a b h. tload filepath = Inr c \<and> getitem c ''input_size'' = Inr a \<and>
         getitem c ''output_size'' = Inr b \<and> getitem c ''hidden_layers'' = Inr h \<and>
         network a b h = Inl e) \<or>
      (\<exists>c a b h model. tload filepath = Inr c \<and> getitem c ''input_size'' = Inr a \<and>
         getitem c ''output_size'' = Inr b \<and> getitem c ''hidden_layers'' = Inr h \<and>
         network a b h = Inr model \<and> getitem c ''state_dict'' = Inl e) \<or>
      (\<exists>c a b h model sd. tload filepath = Inr c \<and> getitem c ''input_size'' = Inr a \<and>
         getitem c ''output_size'' = Inr b \<and> getitem c ''hidden_layers'' = Inr h \<and>
         network a b h = Inr model \<and> getitem c ''state_dict'' = Inr sd \<and>
         lsd model sd = Inl e)) \<and>
   distinct (fst (load_checkpoint_steps tload network lsd filepath))"
  unfolding load_checkpoint_with_def load_checkpoint_steps_def
  by (auto split: sum.splits)

text \<open>
  C5. The reconstruction call \<open>fc_model.Network(...)\<close> is made on a condition: it runs
  exactly when \<open>torch.load\<close> has returned a checkpoint and the three hyperparameters could
  be read from it. There are calls of \<open>load_checkpoint\<close> on which it does not run, for
  instance on a path where no file is stored.
\<close>

theorem reconstruction_is_conditional:
  "(Call_Network \<in> set (fst (load_checkpoint_steps tload network lsd filepath)) \<longleftrightarrow>
      (\<exists>c a b h. tload filepath = Inr c \<and> getitem c ''input_size'' = Inr a \<and>
          getitem c ''output_size'' = Inr b \<and> getitem c ''hidden_layers'' = Inr h)) \<and>
   (\<exists>(fs :: 'a filesystem) filepath. Call_Network \<notin> set (load_checkpoint_calls fs rng filepath))"
proof
  show "Call_Network \<in> set (fst (load_checkpoint_steps tload network lsd filepath)) \<longleftrightarrow>
      (\<exists>c a b h. tload filepath = Inr c \<and> getitem c ''input_size'' = Inr a \<and>
          getitem c ''output_size'' = Inr b \<and> getitem c ''hidden_layers'' = Inr h)"
    unfolding load_checkpoint_steps_def by (auto split: sum.splits)
  have "Call_Network \<notin> set (load_checkpoint_calls (Map.empty :: 'a filesystem) rng ''checkpoint.pth'')"
    by (simp add: load_checkpoint_calls_def load_checkpoint_steps_def torch_load_def)
  then show "\<exists>(fs :: 'a filesystem) filepath. Call_Network \<notin> set (load_checkpoint_calls fs rng filepath)"
    by blast
qed

text \<open>The call is skipped only when a step before it raises: a call that returns has made
  all three library calls, once each and in order.\<close>

lemma reconstruction_runs_before_return:
  "load_checkpoint_steps tload network lsd filepath = (calls, Inr model) \<Longrightarrow>
   calls = [Call_torch_load filepath, Call_Network, Call_load_state_dict]"
  unfolding load_checkpoint_steps_def
  by (auto split: sum.splits)

section \<open>Properties of the training loop\<close>

lemma for_else_training_pass:
  "for_else (training_pass lib) orelse bs s =
     orelse (s\<lparr>running_loss := foldl (float_add lib) (running_loss s) (pass_losses lib (net s) bs),
               net := model_after lib (net s) bs\<rparr>)"
  by (induction bs arbitrary: s) (simp_all add: training_pass_def model_after_def)

lemma epoch_result:
  "len trainloader \<noteq> 0 \<Longrightarrow>
   epoch lib trainloader k s =
     Inr (s\<lparr>running_loss := foldl (float_add lib) (float_of_zero lib)
                               (pass_losses lib (net s) (batches trainloader k)),
            net := model_after lib (net s) (batches trainloader k),
            printed := printed s @
              [float_div lib (foldl (float_add lib) (float_of_zero lib)
                                (pass_losses lib (net s) (batches trainloader k)))
                 (len trainloader)]\<rparr>)"
  by (simp add: epoch_def for_else_training_pass print_training_loss_def)

lemma for_range_epoch_printed:
  "len trainloader \<noteq> 0 \<Longrightarrow>
   \<exists>s'. for_range (epoch lib trainloader) ks s = Inr s' \<and>
        length (printed s') = length (printed s) + length ks"
proof (induction ks arbitrary: s)
  case Nil
  then show ?case by simp
next
  case (Cons k ks)
  from Cons.prems obtain s1 where s1: "epoch lib trainloader k s = Inr s1"
    and p1: "length (printed s1) = Suc (length (printed s))"
    by (simp add: epoch_result)
  from Cons.IH [OF Cons.prems, of s1] obtain s' where
    "for_range (epoch lib trainloader) ks s1 = Inr s'"
    "length (printed s') = length (printed s1) + length ks" by blast
  with s1 p1 show ?case by simp
qed

text \<open>
  C10. The body of the inner loop has no \<open>break\<close>, so its \<open>else\<close> clause always
  executes, on the state the batches have left (first conjunct, for any \<open>else\<close> clause).
  With a loader that is not empty (the loader of the notebook yields the batches of the
  MNIST training set), every epoch starts the running loss from zero and prints exactly
  one value, the running loss of this epoch alone divided by the length of the loader
  (second conjunct), and the whole loop prints exactly \<open>epochs = 5\<close> values (third
  conjunct).
\<close>

theorem training_loop_prints_once_per_epoch:
  assumes "len trainloader \<noteq> 0"
  shows "for_else (training_pass lib) orelse bs s0 =
           orelse (s0\<lparr>running_loss := foldl (float_add lib) (running_loss s0)
                                        (pass_losses lib (net s0) bs),
                      net := model_after lib (net s0) bs\<rparr>) \<and>
         (\<exists>s'. epoch lib trainloader k s = Inr s' \<and>
           running_loss s' = foldl (float_add lib) (float_of_zero lib)
                               (pass_losses lib (net s) (batches trainloader k)) \<and>
           printed s' = printed s @ [float_div lib (running_loss s') (len trainloader)]) \<and>
         (\<exists>s'. train lib trainloader s = Inr s' \<and>
           length (printed s') = length (printed s) + 5)"
proof (intro conjI)
  show "for_else (training_pass lib) orelse bs s0 =
           orelse (s0\<lparr>running_loss := foldl (float_add lib) (running_loss s0)
                                        (pass_losses lib (net s0) bs),
                      net := model_after lib (net s0) bs\<rparr>)"
    by (rule for_else_training_pass)
  show "\<exists>s'. epoch lib trainloader k s = Inr s' \<and>
           running_loss s' = foldl (float_add lib) (float_of_zero lib)
                               (pass_losses lib (net s) (batches trainloader k)) \<and>
           printed s' = printed s @ [float_div lib (running_loss s') (len trainloader)]"
    using assms by (simp add: epoch_result)
  show "\<exists>s'. train lib trainloader s = Inr s' \<and>
           length (printed s') = length (printed s) + 5"
    using for_range_epoch_printed [OF assms, of lib "[0..<epochs]" s]
    by (simp add: train_def epochs_def)
qed

theorem training_loop_prints_once_per_epoch_witness:
  "len two_batches \<noteq> 0 \<and>
   train int_library two_batches \<lparr>net = 0, running_loss = 0, printed = []\<rparr> =
     Inr \<lparr>net = 10, running_loss = 13, printed = [14, 12, 10, 8, 6]\<rparr> \<and>
   (\<exists>s'. train int_library two_batches \<lparr>net = 0, running_loss = 0, printed = []\<rparr> = Inr s' \<and>
      length (printed s') = 5)"
proof -
  have h: "len two_batches \<noteq> 0"
    by (simp add: two_batches_def)
  have run: "train int_library two_batches \<lparr>net = 0, running_loss = 0, printed = []\<rparr> =
     Inr \<lparr>net = 10, running_loss = 13, printed = [14, 12, 10, 8, 6]\<rparr>"
    by (simp add: train_def epochs_def epoch_def upt_rec training_pass_def
        print_training_loss_def int_library_def two_batches_def)
  from training_loop_prints_once_per_epoch
    [OF h, where lib = int_library and s = "\<lparr>net = 0, running_loss = 0, printed = []\<rparr>"]
  have "\<exists>s'. train int_library two_batches \<lparr>net = 0, running_loss = 0, printed = []\<rparr> = Inr s' \<and>
      length (printed s') = 5"
    by simp
  with h run show ?thesis by simp
qed

section \<open>Properties of the library model\<close>

declare str_nat.simps [simp del]

subsection \<open>The architecture does not depend on the initialisation\<close>

lemma same_linear_nn_Linear: "same_linear (nn_Linear d n_in n_out) (nn_Linear d' n_in n_out)"
  by (simp add: same_linear_def nn_Linear_def)

lemma same_linear_build_layers:
  "list_all2 same_linear (build_layers rng k ds) (build_layers rng' k ds)"
  by (induction ds arbitrary: k) (auto simp: same_linear_nn_Linear)

lemma same_architecture_Network:
  "fc_model_Network rng a b hs = Inr m \<Longrightarrow> fc_model_Network rng' a b hs = Inr m' \<Longrightarrow>
   same_architecture m m'"
  by (auto simp: fc_model_Network_def same_architecture_def same_linear_nn_Linear
      same_linear_build_layers split: if_splits)

lemma Network_error_independent:
  "fc_model_Network rng a b hs = Inl e \<Longrightarrow> fc_model_Network rng' a b hs = Inl e"
  by (auto simp: fc_model_Network_def split: if_splits)

lemma Network_succeeds_again:
  "fc_model_Network rng a b hs = Inr m \<Longrightarrow> \<exists>m'. fc_model_Network rng' a b hs = Inr m'"
  by (auto simp: fc_model_Network_def split: if_splits)

lemma Network_call_independent:
  "(\<exists>e. Network_call rng a b h = Inl e \<and> Network_call rng' a b h = Inl e) \<or>
   (\<exists>m m'. Network_call rng a b h = Inr m \<and> Network_call rng' a b h = Inr m' \<and>
       same_architecture m m')"
proof (cases "Network_call rng a b h")
  case (Inl e)
  then have "Network_call rng' a b h = Inl e"
    by (induction rng a b h rule: Network_call.induct)
       (auto split: option.splits dest: Network_error_independent)
  with Inl show ?thesis by simp
next
  case (Inr m)
  then obtain m' where "Network_call rng' a b h = Inr m'" "same_architecture m m'"
    by (induction rng a b h rule: Network_call.induct)
       (auto split: option.splits simp: fc_model_Network_def same_architecture_def
         same_linear_nn_Linear same_linear_build_layers split: if_splits)
  with Inr show ?thesis by simp
qed

subsection \<open>The errors of loading depend on the names and shapes only\<close>

lemma shapes_linear_parameters:
  "same_linear l l' \<Longrightarrow>
   parameter_shapes (linear_parameters prefix l) = parameter_shapes (linear_parameters prefix l')"
  by (simp add: same_linear_def linear_parameters_def parameter_shapes_def)

lemma parameter_shapes_append:
  "parameter_shapes (xs @ ys) = parameter_shapes xs @ parameter_shapes ys"
  by (simp add: parameter_shapes_def)

lemma shapes_layers_parameters:
  "list_all2 same_linear ls ls' \<Longrightarrow>
   parameter_shapes (layers_parameters k ls) = parameter_shapes (layers_parameters k ls')"
proof (induction ls ls' arbitrary: k rule: list_all2_induct)
  case Nil
  then show ?case by simp
next
  case (Cons l ls l' ls')
  then show ?case
    by (simp add: parameter_shapes_append shapes_linear_parameters)
qed

lemma shapes_named_parameters:
  "same_architecture m m' \<Longrightarrow>
   parameter_shapes (named_parameters m) = parameter_shapes (named_parameters m')"
  using shapes_layers_parameters [of "hidden_layers m" "hidden_layers m'" 0]
    shapes_linear_parameters [of "output_layer m" "output_layer m'" "''output''"]
  by (simp add: same_architecture_def named_parameters_def parameter_shapes_append)

lemma names_of_shapes: "map fst ps = map fst (parameter_shapes ps)"
  by (simp add: parameter_shapes_def case_prod_beta comp_def)

lemma size_mismatches_shapes:
  "size_mismatches sd own =
     concat (map (\<lambda>(k, s). case sd k of
                              None \<Rightarrow> []
                            | Some t \<Rightarrow> if shape t = s then [] else [SizeMismatch k (shape t) s])
               (parameter_shapes own))"
  unfolding size_mismatches_def parameter_shapes_def
  by (induction own) (auto split: option.splits)

lemma load_errors_shapes:
  "parameter_shapes own = parameter_shapes own' \<Longrightarrow> load_errors items own = load_errors items own'"
  unfolding load_errors_def size_mismatches_shapes
  by (simp add: names_of_shapes [of own] names_of_shapes [of own'])

subsection \<open>Without errors, every parameter is overwritten\<close>

lemma covered_append: "covered sd (xs @ ys) \<longleftrightarrow> covered sd xs \<and> covered sd ys"
  by (simp add: covered_def)

lemma covered_if_no_problem:
  "filter (\<lambda>k. sd k = None) (map fst own) = [] \<Longrightarrow> size_mismatches sd own = [] \<Longrightarrow>
   covered sd own"
  unfolding covered_def size_mismatches_def
  by (induction own) (auto split: option.splits if_splits)

lemma no_errors_covered:
  "load_errors items own = [] \<Longrightarrow> covered (map_of items) own"
  by (simp add: load_errors_def covered_if_no_problem)

lemma load_linear_same:
  "covered sd (linear_parameters prefix l) \<Longrightarrow> same_linear l l' \<Longrightarrow>
   load_linear sd prefix l = load_linear sd prefix l'"
  by (cases l; cases l')
     (auto simp: covered_def linear_parameters_def same_linear_def load_linear_def copy_param_def
       split: option.splits)

lemma load_layers_same:
  "list_all2 same_linear ls ls' \<Longrightarrow> covered sd (layers_parameters k ls) \<Longrightarrow>
   load_layers sd k ls = load_layers sd k ls'"
proof (induction ls ls' arbitrary: k rule: list_all2_induct)
  case Nil
  then show ?case by simp
next
  case (Cons l ls l' ls')
  then show ?case
    by (simp add: covered_append load_linear_same)
qed

lemma load_state_dict_dict:
  "tensor_items kvs = Some items \<Longrightarrow>
   load_state_dict m (PDict kvs) =
     (if load_errors items (named_parameters m) = []
      then Inr \<lparr>hidden_layers = load_layers (map_of items) 0 (hidden_layers m),
                output_layer = load_linear (map_of items) ''output'' (output_layer m)\<rparr>
      else Inl (RuntimeError (LoadingStateDict (load_errors items (named_parameters m)))))"
  by (simp add: load_state_dict_def load_state_dict_inplace_def Let_def)

lemma load_state_dict_not_tensors:
  "tensor_items kvs = None \<Longrightarrow> load_state_dict m (PDict kvs) = Inl TypeError"
  by (simp add: load_state_dict_def load_state_dict_inplace_def)

lemma load_state_dict_not_dict:
  "load_state_dict m (PInt i) = Inl TypeError"
  "load_state_dict m (PList vs) = Inl TypeError"
  "load_state_dict m (PTensor t) = Inl TypeError"
  by (simp_all add: load_state_dict_def load_state_dict_inplace_def)

lemma load_state_dict_same_architecture:
  assumes "same_architecture m m'"
  shows "load_state_dict m v = load_state_dict m' v"
proof (cases v)
  case (PDict kvs)
  show ?thesis
  proof (cases "tensor_items kvs")
    case None
    with PDict show ?thesis by (simp add: load_state_dict_not_tensors)
  next
    case (Some items)
    have errs: "load_errors items (named_parameters m) = load_errors items (named_parameters m')"
      by (rule load_errors_shapes) (rule shapes_named_parameters [OF assms])
    show ?thesis
    proof (cases "load_errors items (named_parameters m) = []")
      case True
      then have cov: "covered (map_of items) (named_parameters m)"
        by (rule no_errors_covered)
      from cov assms
      have "load_layers (map_of items) 0 (hidden_layers m) =
            load_layers (map_of items) 0 (hidden_layers m')"
        by (simp add: named_parameters_def covered_append same_architecture_def load_layers_same)
      moreover from cov assms
      have "load_linear (map_of items) ''output'' (output_layer m) =
            load_linear (map_of items) ''output'' (output_layer m')"
        by (simp add: named_parameters_def covered_append same_architecture_def load_linear_same)
      ultimately show ?thesis
        using PDict Some errs True by (simp add: load_state_dict_dict)
    next
      case False
      with PDict Some errs show ?thesis by (simp add: load_state_dict_dict)
    qed
  qed
qed (simp_all add: load_state_dict_not_dict)

lemma load_linear_overwrites:
  "covered sd (linear_parameters prefix l) \<Longrightarrow>
   list_all (\<lambda>(k, p). sd k = Some p) (linear_parameters prefix (load_linear sd prefix l))"
  by (auto simp: covered_def linear_parameters_def load_linear_def copy_param_def
      split: option.splits)

lemma load_layers_overwrites:
  "covered sd (layers_parameters k ls) \<Longrightarrow>
   list_all (\<lambda>(k, p). sd k = Some p) (layers_parameters k (load_layers sd k ls))"
  by (induction ls arbitrary: k) (simp_all add: covered_append load_linear_overwrites)

lemma load_state_dict_overwrites:
  assumes "load_state_dict m (PDict kvs) = Inr m'" and "tensor_items kvs = Some items"
  shows "list_all (\<lambda>(k, p). map_of items k = Some p) (named_parameters m')"
proof -
  from assms have ok: "load_errors items (named_parameters m) = []"
    and m': "m' = \<lparr>hidden_layers = load_layers (map_of items) 0 (hidden_layers m),
                    output_layer = load_linear (map_of items) ''output'' (output_layer m)\<rparr>"
    by (auto simp: load_state_dict_dict split: if_splits)
  from ok have "covered (map_of items) (named_parameters m)"
    by (rule no_errors_covered)
  then show ?thesis
    by (simp add: m' named_parameters_def covered_append load_layers_overwrites
        load_linear_overwrites)
qed

subsection \<open>The load helper, step by step\<close>

lemma load_checkpoint_with_unfold:
  "load_checkpoint_with tload network lsd filepath =
     (case tload filepath of Inl e \<Rightarrow> Inl e | Inr c \<Rightarrow>
     (case getitem c ''input_size'' of Inl e \<Rightarrow> Inl e | Inr a \<Rightarrow>
     (case getitem c ''output_size'' of Inl e \<Rightarrow> Inl e | Inr b \<Rightarrow>
     (case getitem c ''hidden_layers'' of Inl e \<Rightarrow> Inl e | Inr h \<Rightarrow>
     (case network a b h of Inl e \<Rightarrow> Inl e | Inr model \<Rightarrow>
     (case getitem c ''state_dict'' of Inl e \<Rightarrow> Inl e | Inr sd \<Rightarrow> lsd model sd))))))"
  unfolding load_checkpoint_with_def load_checkpoint_steps_def
  by (simp split: sum.splits)

lemma rebuild_independent:
  "(case Network_call rng a b h of Inl e \<Rightarrow> Inl e
    | Inr model \<Rightarrow> (case g of Inl e \<Rightarrow> Inl e | Inr sd \<Rightarrow> load_state_dict model sd)) =
   (case Network_call rng' a b h of Inl e \<Rightarrow> Inl e
    | Inr model \<Rightarrow> (case g of Inl e \<Rightarrow> Inl e | Inr sd \<Rightarrow> load_state_dict model sd))"
  using Network_call_independent [of rng a b h rng']
  by (auto split: sum.splits simp: load_state_dict_same_architecture)

subsection \<open>Parameter names are distinct\<close>

lemma digit_char_inj: "a < 10 \<Longrightarrow> b < 10 \<Longrightarrow> digit_char a = digit_char b \<Longrightarrow> a = b"
  unfolding digit_char_def char_of_eq_iff
  by (simp add: take_bit_eq_mod)

lemma str_nat_not_Nil: "str_nat n \<noteq> []"
  by (subst str_nat.simps) simp

lemma str_nat_inj: "str_nat n = str_nat m \<Longrightarrow> n = m"
proof (induction n arbitrary: m rule: str_nat.induct)
  case (1 n)
  show ?case
  proof (cases "n < 10")
    case True
    show ?thesis
    proof (cases "m < 10")
      case m: True
      from "1.prems" True m have "digit_char n = digit_char m"
        by (simp add: str_nat.simps [of n] str_nat.simps [of m])
      with True m show ?thesis by (rule digit_char_inj)
    next
      case m: False
      from "1.prems" True m have "[digit_char n] = str_nat (m div 10) @ [digit_char (m mod 10)]"
        by (simp add: str_nat.simps [of n] str_nat.simps [of m])
      then show ?thesis by (simp add: str_nat_not_Nil [THEN not_sym])
    qed
  next
    case False
    show ?thesis
    proof (cases "m < 10")
      case m: True
      from "1.prems" False m have "str_nat (n div 10) @ [digit_char (n mod 10)] = [digit_char m]"
        by (simp add: str_nat.simps [of n] str_nat.simps [of m])
      then show ?thesis by (simp add: str_nat_not_Nil)
    next
      case m: False
      from "1.prems" False m
      have eq: "str_nat (n div 10) @ [digit_char (n mod 10)] =
                str_nat (m div 10) @ [digit_char (m mod 10)]"
        by (simp add: str_nat.simps [of n] str_nat.simps [of m])
      then have "str_nat (n div 10) = str_nat (m div 10)" by simp
      with "1.IH" False have d: "n div 10 = m div 10" by simp
      from eq have "digit_char (n mod 10) = digit_char (m mod 10)" by simp
      then have "n mod 10 = m mod 10" by (intro digit_char_inj) simp_all
      with d show ?thesis by (metis div_mult_mod_eq)
    qed
  qed
qed

lemma str_nat_digits:
  "str_nat 0 = ''0''" "str_nat (Suc 0) = ''1''" "str_nat (Suc (Suc 0)) = ''2''"
  by code_simp+

lemma weight_bias_names:
  "xs @ ''.weight'' \<noteq> ys @ ''.bias''"
  "xs @ ''.bias'' \<noteq> ys @ ''.weight''"
proof -
  have "last (xs @ ''.weight'') \<noteq> last (ys @ ''.bias'')" by simp
  then show "xs @ ''.weight'' \<noteq> ys @ ''.bias''" by (rule contrapos_nn) simp
  have "last (xs @ ''.bias'') \<noteq> last (ys @ ''.weight'')" by simp
  then show "xs @ ''.bias'' \<noteq> ys @ ''.weight''" by (rule contrapos_nn) simp
qed

lemma layer_name_inj: "layer_name j = layer_name k \<longleftrightarrow> j = k"
  by (auto simp: layer_name_def dest: str_nat_inj)

lemma earlier_layer_not_later:
  "j < k \<Longrightarrow>
   layer_name j @ ''.weight'' \<notin> fst ` set (layers_parameters k ls) \<and>
   layer_name j @ ''.bias'' \<notin> fst ` set (layers_parameters k ls)"
proof (induction ls arbitrary: k)
  case Nil
  then show ?case by simp
next
  case (Cons l ls)
  from Cons.prems have "j < Suc k" and "j \<noteq> k" by simp_all
  with Cons.IH [of "Suc k"] show ?case
    by (simp add: linear_parameters_def weight_bias_names layer_name_inj)
qed

lemma output_not_layer:
  "''output.weight'' \<notin> fst ` set (layers_parameters k ls) \<and>
   ''output.bias'' \<notin> fst ` set (layers_parameters k ls)"
  by (induction ls arbitrary: k) (simp_all add: linear_parameters_def layer_name_def)

lemma distinct_layers_parameters: "distinct (map fst (layers_parameters k ls))"
proof (induction ls arbitrary: k)
  case Nil
  then show ?case by simp
next
  case (Cons l ls)
  with earlier_layer_not_later [of k "Suc k" ls] show ?case
    by (simp add: linear_parameters_def weight_bias_names)
qed

lemma distinct_named_parameters: "distinct (map fst (named_parameters m))"
  using output_not_layer [of 0 "hidden_layers m"]
  by (simp add: named_parameters_def distinct_layers_parameters linear_parameters_def)

subsection \<open>Loading a model's own state dict\<close>

lemma tensor_items_tensors: "tensor_items (map (\<lambda>(k, t). (k, PTensor t)) ps) = Some ps"
  by (induction ps) auto

lemma size_mismatches_own:
  "distinct (map fst own) \<Longrightarrow> set ps \<subseteq> set own \<Longrightarrow> size_mismatches (map_of own) ps = []"
  unfolding size_mismatches_def
  by (induction ps) auto

lemma load_errors_own:
  assumes "distinct (map fst own)"
  shows "load_errors own own = []"
proof -
  have "filter (\<lambda>k. map_of own k = None) (map fst own) = []"
    by (auto simp: filter_empty_conv map_of_eq_None_iff)
  moreover have "filter (\<lambda>k. k \<notin> set (map fst own)) (map fst own) = []"
    by (auto simp: filter_empty_conv)
  ultimately show ?thesis
    using assms by (simp add: load_errors_def size_mismatches_own)
qed

lemma load_linear_own:
  "sd (prefix @ ''.weight'') = Some (weight l) \<Longrightarrow> sd (prefix @ ''.bias'') = Some (bias l) \<Longrightarrow>
   load_linear sd prefix l = l"
  by (simp add: load_linear_def copy_param_def)

lemma load_layers_own:
  "distinct (map fst own) \<Longrightarrow> set (layers_parameters k ls) \<subseteq> set own \<Longrightarrow>
   load_layers (map_of own) k ls = ls"
  by (induction ls arbitrary: k) (auto simp: linear_parameters_def load_linear_own)

lemma load_own_state_dict: "load_state_dict m (state_dict m) = Inr m"
proof -
  let ?own = "named_parameters m"
  have d: "distinct (map fst ?own)" by (rule distinct_named_parameters)
  have "load_layers (map_of ?own) 0 (hidden_layers m) = hidden_layers m"
    using d by (rule load_layers_own) (simp add: named_parameters_def)
  moreover have "(''output.weight'', weight (output_layer m)) \<in> set ?own"
    and "(''output.bias'', bias (output_layer m)) \<in> set ?own"
    by (simp_all add: named_parameters_def linear_parameters_def)
  then have "load_linear (map_of ?own) ''output'' (output_layer m) = output_layer m"
    using d by (intro load_linear_own) simp_all
  ultimately show ?thesis
    using d by (simp add: state_dict_def load_state_dict_dict [OF tensor_items_tensors] load_errors_own)
qed

lemma out_features_build_layers: "map out_features (build_layers rng k ds) = map snd ds"
  by (induction ds arbitrary: k) (auto simp: nn_Linear_def)

lemma widths_Network:
  "fc_model_Network rng a b hs = Inr m \<Longrightarrow> map out_features (hidden_layers m) = hs"
proof -
  assume "fc_model_Network rng a b hs = Inr m"
  then have hs: "hs \<noteq> []"
    and m: "hidden_layers m = build_layers rng 0 ((a, hd hs) # zip (butlast hs) (tl hs))"
    by (auto simp: fc_model_Network_def split: if_splits)
  have "length (butlast hs) = length (tl hs)" by simp
  then have "map snd (zip (butlast hs) (tl hs)) = tl hs" by (rule map_snd_zip)
  with hs m show ?thesis by (simp add: out_features_build_layers nn_Linear_def)
qed

lemma as_ints_PInt: "as_ints (map (\<lambda>each. PInt (f each)) ls) = Some (map f ls)"
  by (induction ls) auto

subsection \<open>Loading checkpoints and state dicts\<close>

text \<open>
  C9. The model \<open>load_checkpoint\<close> returns depends on the file only: two runs on the same
  file system and path, whatever the random initialisations inside the constructor, have the
  same outcome, the same error or the same model with the same parameters. The constructor
  fixes the names and shapes from the hyperparameters alone, and a \<open>load_state_dict\<close>
  that raises nothing has overwritten every parameter.
\<close>

theorem load_checkpoint_independent_of_initialization:
  "load_checkpoint fs rng filepath = load_checkpoint fs rng' filepath"
  unfolding load_checkpoint_def load_checkpoint_with_unfold
  by (simp add: rebuild_independent [where rng = rng and rng' = rng'] cong: sum.case_cong)

theorem load_checkpoint_independent_of_initialization_witness:
  "load_checkpoint (save_checkpoint mnist_model Map.empty) zeros ''checkpoint.pth'' =
     Inr mnist_model \<and>
   load_checkpoint (save_checkpoint mnist_model Map.empty) ones ''checkpoint.pth'' =
     Inr mnist_model"
proof -
  have "load_checkpoint (save_checkpoint mnist_model Map.empty) zeros ''checkpoint.pth'' =
     Inr mnist_model"
    by (simp add: mnist_model_def load_checkpoint_def load_checkpoint_with_unfold
      save_checkpoint_def save_checkpoint_with_def torch_save_def torch_load_def checkpoint_def state_dict_def
      fc_model_Network_def
      load_state_dict_def load_state_dict_inplace_def load_errors_def size_mismatches_def
      named_parameters_def linear_parameters_def layer_name_def str_nat_digits nn_Linear_def
      load_linear_def copy_param_def Let_def)
  with load_checkpoint_independent_of_initialization
    [of "save_checkpoint mnist_model Map.empty" zeros "''checkpoint.pth''" ones]
  show ?thesis by simp
qed

text \<open>
  C8, as the code has it. The checkpoint cell writes the sizes as the literals 784 and 10.
  For every network built with these sizes, whatever its hidden widths and the values of
  its parameters, saving its checkpoint and calling \<open>load_checkpoint\<close> on the file returns
  a model equal to the original: the same sizes and widths and the same state dict.
\<close>

theorem checkpoint_round_trip:
  assumes "fc_model_Network rng 784 10 hs = Inr m"
  shows "load_checkpoint (save_checkpoint m fs) rng' ''checkpoint.pth'' = Inr m"
proof -
  from assms obtain m' where m': "fc_model_Network rng' 784 10 hs = Inr m'"
    using Network_succeeds_again by blast
  with assms have "same_architecture m' m" by (rule same_architecture_Network [rotated])
  then have "load_state_dict m' (state_dict m) = Inr m"
    by (simp add: load_state_dict_same_architecture load_own_state_dict)
  with m' widths_Network [OF assms] show ?thesis
    by (simp add: load_checkpoint_def load_checkpoint_with_unfold save_checkpoint_def save_checkpoint_with_def
        torch_save_def torch_load_def checkpoint_def as_ints_PInt)
qed

theorem checkpoint_round_trip_witness:
  "fc_model_Network zeros 784 10 [3] = Inr mnist_model \<and>
   load_checkpoint (save_checkpoint mnist_model Map.empty) ones ''checkpoint.pth'' =
     Inr mnist_model"
proof -
  have h: "fc_model_Network zeros 784 10 [3] = Inr mnist_model"
    by (simp add: fc_model_Network_def mnist_model_def)
  from h checkpoint_round_trip [OF h, of Map.empty ones] show ?thesis
    by simp
qed

text \<open>
  The claim fails for a network of another input size: the checkpoint of
  \<open>Network(4, 10, [3])\<close> says \<open>input_size = 784\<close>, the network rebuilt from it has a
  first weight of shape \<open>[3, 784]\<close>, and loading the saved one of shape \<open>[3, 4]\<close> raises.
\<close>

theorem checkpoint_round_trip_counterexample:
  "fc_model_Network zeros 4 10 [3] = Inr small_model \<and>
   load_checkpoint (save_checkpoint small_model Map.empty) zeros ''checkpoint.pth'' =
     Inl (RuntimeError (LoadingStateDict
            [SizeMismatch ''hidden_layers.0.weight'' [3, 4] [3, 784]]))"
  by (simp add: fc_model_Network_def small_model_def load_checkpoint_def load_checkpoint_with_unfold
      save_checkpoint_def save_checkpoint_with_def torch_save_def torch_load_def checkpoint_def state_dict_def
      load_state_dict_def load_state_dict_inplace_def load_errors_def size_mismatches_def
      named_parameters_def linear_parameters_def layer_name_def str_nat_digits nn_Linear_def
      Let_def)

end
